theory Spec2Isabelle
  imports Main "HOL-Library.Multiset"
begin

section \<open>JSON payloads, Python exceptions and the HTTP transport\<close>

text \<open>
  A decoded JSON document, as \<^verbatim>\<open>response.json()\<close> returns it. An object is the Python
  dict in insertion order. Numbers are integers; floating-point numbers play no part in
  any function below.
\<close>

datatype json =
    JNull
  | JBool bool
  | JInt int
  | JStr string
  | JArr "json list"
  | JObj "(string \<times> json) list"

text \<open>The exceptions that the modelled code can raise; none of them is caught unless said so.\<close>

datatype exn =
    RequestException string
  | JSONDecodeError
  | TypeError
  | AttributeError
  | ValidationError
  | KeyError string
  | OutOfBoundsDatetime

text \<open>
  A GET request is its URL and the query parameters attached to it. The outcome of
  \<^verbatim>\<open>requests.get\<close> is either an exception (its message) or a response: the status code
  and the body, \<open>None\<close> when the body is not JSON (\<^verbatim>\<open>response.json()\<close> raises).
\<close>

record request =
  url :: string
  query :: "(string \<times> json) list"

datatype http_outcome =
    Failed string
  | Response nat "json option"

type_synonym server = "request \<Rightarrow> http_outcome"

text \<open>Every call of \<^verbatim>\<open>requests.get\<close> is appended to the list of requests sent so far.\<close>

definition requests_get ::
  "server \<Rightarrow> string \<Rightarrow> (string \<times> json) list \<Rightarrow> request list \<Rightarrow> http_outcome \<times> request list" where
  "requests_get srv u ps sent =
     (srv \<lparr>url = u, query = ps\<rparr>, sent @ [\<lparr>url = u, query = ps\<rparr>])"

section \<open>sepex.py: the API client\<close>

text \<open>\<^verbatim>\<open>self.base_url = base_url.rstrip("/")\<close>\<close>

definition rstrip_slash :: "string \<Rightarrow> string" where
  "rstrip_slash s = rev (dropWhile (\<lambda>c. c = CHR ''/'') (rev s))"

record SepexAPI =
  base_url :: string

definition SepexAPI_init :: "string \<Rightarrow> SepexAPI" where
  "SepexAPI_init b = \<lparr>base_url = rstrip_slash b\<rparr>"

subsection \<open>fetch\_table\<close>

text \<open>
  Lines 29 to 33: when the decoded document is a dict, the first of its values that is a
  list replaces it; a dict without a list value stays as it is.
\<close>

fun first_list :: "json list \<Rightarrow> json option" where
  "first_list [] = None"
| "first_list (JArr xs # vs) = Some (JArr xs)"
| "first_list (v # vs) = first_list vs"

definition unwrap_envelope :: "json \<Rightarrow> json" where
  "unwrap_envelope data =
     (case data of
        JObj kv \<Rightarrow> (case first_list (map snd kv) of Some v \<Rightarrow> v | None \<Rightarrow> data)
      | _ \<Rightarrow> data)"

text \<open>
  \<^verbatim>\<open>for item in data\<close>: a list yields its elements, a dict its keys, a string its
  characters; anything else is not iterable.
\<close>

fun iter_json :: "json \<Rightarrow> exn + json list" where
  "iter_json (JArr xs) = Inr xs"
| "iter_json (JObj kv) = Inr (map (\<lambda>p. JStr (fst p)) kv)"
| "iter_json (JStr s) = Inr (map (\<lambda>c. JStr [c]) s)"
| "iter_json v = Inl TypeError"

text \<open>
  \<^verbatim>\<open>model_cls(**item)\<close>: the argument of \<^verbatim>\<open>**\<close> must be a mapping; the record schema
  \<open>model_cls\<close> then accepts the fields (giving the record) or raises a validation error.
\<close>

fun call_model :: "((string \<times> json) list \<Rightarrow> 'r option) \<Rightarrow> json \<Rightarrow> exn + 'r" where
  "call_model model_cls (JObj kv) =
     (case model_cls kv of None \<Rightarrow> Inl ValidationError | Some r \<Rightarrow> Inr r)"
| "call_model model_cls v = Inl TypeError"

text \<open>The list comprehension of line 34 stops at the first element that raises.\<close>

fun build_items :: "((string \<times> json) list \<Rightarrow> 'r option) \<Rightarrow> json list \<Rightarrow> exn + 'r list" where
  "build_items model_cls [] = Inr []"
| "build_items model_cls (x # xs) =
     (case call_model model_cls x of
        Inl e \<Rightarrow> Inl e
      | Inr r \<Rightarrow> (case build_items model_cls xs of Inl e \<Rightarrow> Inl e | Inr rs \<Rightarrow> Inr (r # rs)))"

text \<open>
  The function returns a data frame (its rows, \<open>Some rows\<close>), returns \<^verbatim>\<open>None\<close>, or
  raises. The parameter \<open>params\<close> is accepted and never read: line 26 is
  \<^verbatim>\<open>requests.get(url)\<close>.
\<close>

definition fetch_table ::
  "server \<Rightarrow> SepexAPI \<Rightarrow> string \<Rightarrow> ((string \<times> json) list \<Rightarrow> 'r option) \<Rightarrow>
   (string \<times> json) list option \<Rightarrow> request list \<Rightarrow> (exn + 'r list option) \<times> request list" where
  "fetch_table srv self endpoint model_cls params sent =
     (let u = base_url self @ ''/'' @ endpoint;
          (response, sent') = requests_get srv u [] sent
      in case response of
           Failed msg \<Rightarrow> (Inl (RequestException msg), sent')
         | Response status_code body \<Rightarrow>
             if status_code = 200 then
               (case body of
                  None \<Rightarrow> (Inl JSONDecodeError, sent')
                | Some data \<Rightarrow>
                    (case iter_json (unwrap_envelope data) of
                       Inl e \<Rightarrow> (Inl e, sent')
                     | Inr xs \<Rightarrow>
                         (case build_items model_cls xs of
                            Inl e \<Rightarrow> (Inl e, sent')
                          | Inr items \<Rightarrow> (Inr (Some items), sent'))))
             else (Inr None, sent'))"

subsection \<open>The Process schema and fetch\_processes\_dict\<close>

text \<open>
  \<^verbatim>\<open>class Process(BaseModel)\<close>: six fields, none with a default, so each must be present;
  a \<^verbatim>\<open>str\<close> field takes a JSON string, \<^verbatim>\<open>List[str]\<close> a list of strings,
  \<^verbatim>\<open>Optional[Any]\<close> any value.
\<close>

record Process =
  version :: string
  id' :: string
  title :: string
  description :: string
  jobControlOptions :: "string list"
  outputTransmission :: json

definition get_str :: "(string \<times> json) list \<Rightarrow> string \<Rightarrow> string option" where
  "get_str kv k = (case map_of kv k of Some (JStr s) \<Rightarrow> Some s | _ \<Rightarrow> None)"

fun str_list :: "json list \<Rightarrow> string list option" where
  "str_list [] = Some []"
| "str_list (JStr s # vs) = (case str_list vs of None \<Rightarrow> None | Some ss \<Rightarrow> Some (s # ss))"
| "str_list (v # vs) = None"

definition get_str_list :: "(string \<times> json) list \<Rightarrow> string \<Rightarrow> string list option" where
  "get_str_list kv k = (case map_of kv k of Some (JArr vs) \<Rightarrow> str_list vs | _ \<Rightarrow> None)"

definition Process_model :: "(string \<times> json) list \<Rightarrow> Process option" where
  "Process_model kv =
     (case get_str kv ''version'' of None \<Rightarrow> None | Some v \<Rightarrow>
     (case get_str kv ''id'' of None \<Rightarrow> None | Some i \<Rightarrow>
     (case get_str kv ''title'' of None \<Rightarrow> None | Some t \<Rightarrow>
     (case get_str kv ''description'' of None \<Rightarrow> None | Some d \<Rightarrow>
     (case get_str_list kv ''jobControlOptions'' of None \<Rightarrow> None | Some j \<Rightarrow>
     (case map_of kv ''outputTransmission'' of None \<Rightarrow> None | Some ot \<Rightarrow>
        Some \<lparr>version = v, id' = i, title = t, description = d,
              jobControlOptions = j, outputTransmission = ot\<rparr>))))))"

text \<open>
  Line 67, \<^verbatim>\<open>{p["id"]: Process(**p).model_dump() for p in processes if "id" in p}\<close>,
  one element at a time. The test \<^verbatim>\<open>"id" in p\<close> is key membership on a dict, element
  membership on a list, a substring test on a string, and a type error on anything else.
  When it holds, \<^verbatim>\<open>p["id"]\<close> raises on a list or a string, and on a dict the schema is
  applied: its failure raises, its success stores the record under the identifier (a later
  element with the same identifier replaces an earlier one).
\<close>

fun has_infix :: "'a list \<Rightarrow> 'a list \<Rightarrow> bool" where
  "has_infix p [] = (p = [])"
| "has_infix p (x # xs) = (take (length p) (x # xs) = p \<or> has_infix p xs)"

fun processes_by_id :: "json list \<Rightarrow> (string \<rightharpoonup> Process) \<Rightarrow> exn + (string \<rightharpoonup> Process)" where
  "processes_by_id [] d = Inr d"
| "processes_by_id (JObj kv # ps) d =
     (if map_of kv ''id'' \<noteq> None then
        (case Process_model kv of
           None \<Rightarrow> Inl ValidationError
         | Some r \<Rightarrow> processes_by_id ps (d(id' r \<mapsto> r)))
      else processes_by_id ps d)"
| "processes_by_id (JArr xs # ps) d =
     (if JStr ''id'' \<in> set xs then Inl TypeError else processes_by_id ps d)"
| "processes_by_id (JStr s # ps) d =
     (if has_infix ''id'' s then Inl TypeError else processes_by_id ps d)"
| "processes_by_id (v # ps) d = Inl TypeError"

text \<open>
  \<^verbatim>\<open>data.get("processes", [])\<close> needs \<open>data\<close> to be a dict; the default is the empty
  list.
\<close>

definition get_processes :: "json \<Rightarrow> exn + json" where
  "get_processes data =
     (case data of
        JObj kv \<Rightarrow> (case map_of kv ''processes'' of None \<Rightarrow> Inr (JArr []) | Some v \<Rightarrow> Inr v)
      | _ \<Rightarrow> Inl AttributeError)"

definition fetch_processes_dict ::
  "server \<Rightarrow> SepexAPI \<Rightarrow> string \<Rightarrow> request list \<Rightarrow> (exn + (string \<rightharpoonup> Process)) \<times> request list" where
  "fetch_processes_dict srv self endpoint sent =
     (let u = base_url self @ ''/'' @ endpoint;
          (response, sent') = requests_get srv u [] sent
      in case response of
           Failed msg \<Rightarrow> (Inl (RequestException msg), sent')
         | Response status_code body \<Rightarrow>
             if status_code = 200 then
               (case body of
                  None \<Rightarrow> (Inl JSONDecodeError, sent')
                | Some data \<Rightarrow>
                    (case get_processes data of
                       Inl e \<Rightarrow> (Inl e, sent')
                     | Inr processes \<Rightarrow>
                         (case iter_json processes of
                            Inl e \<Rightarrow> (Inl e, sent')
                          | Inr ps \<Rightarrow> (processes_by_id ps Map.empty, sent'))))
             else (Inr Map.empty, sent'))"

section \<open>helpers.py: process titles\<close>

text \<open>
  \<^verbatim>\<open>get_process_maps\<close>: the identifier of every fetched process is mapped to its title
  (\<^verbatim>\<open>info.get("title") or ""\<close> is the title, a string by the schema); the second map is
  always empty. The default endpoint of the listing is \<^verbatim>\<open>"processes"\<close>.
\<close>

definition get_process_maps ::
  "server \<Rightarrow> SepexAPI \<Rightarrow> request list \<Rightarrow>
   (exn + (string \<rightharpoonup> string) \<times> (string \<rightharpoonup> json)) \<times> request list" where
  "get_process_maps srv api sent =
     (case fetch_processes_dict srv api ''processes'' sent of
        (Inl e, sent') \<Rightarrow> (Inl e, sent')
      | (Inr processes_dict, sent') \<Rightarrow>
          (Inr (\<lambda>pid. map_option title (processes_dict pid), Map.empty), sent'))"

section \<open>helpers.py: the jobs overview\<close>

subsection \<open>Job records and data-frame columns\<close>

text \<open>
  A job is a dict with (some of) the six keys of the \<^verbatim>\<open>Job\<close> schema. A key can be
  missing from the dict (the data frame then holds NaN in that cell), can hold
  \<^verbatim>\<open>None\<close>, or can hold a value. The value of \<^verbatim>\<open>updated\<close> is a pandas Timestamp:
  a count of nanoseconds held in 64 bits, so between -9223372036854775807 and
  9223372036854775807. A text that \<^verbatim>\<open>pd.to_datetime\<close> cannot parse, and a moment
  outside that range, are outside this type.
\<close>

datatype 'a field = Missing | PyNone | Val 'a

record job =
  jobID :: "string field"
  updated :: "int field"
  status :: "string field"
  processID :: "string field"
  type' :: "string field"
  submitter :: "string field"

text \<open>A column exists when some dict has its key; \<^verbatim>\<open>isna\<close> holds of NaN and of \<^verbatim>\<open>None\<close>.\<close>

definition has_column :: "(job \<Rightarrow> 'a field) \<Rightarrow> job list \<Rightarrow> bool" where
  "has_column f jobs = list_ex (\<lambda>j. f j \<noteq> Missing) jobs"

fun isna :: "'a field \<Rightarrow> bool" where
  "isna (Val v) = False"
| "isna c = True"

fun dropna :: "'a field list \<Rightarrow> 'a list" where
  "dropna [] = []"
| "dropna (Val v # cs) = v # dropna cs"
| "dropna (c # cs) = dropna cs"

text \<open>\<^verbatim>\<open>DataFrame.empty\<close>: no row, or no column.\<close>

definition df_empty :: "job list \<Rightarrow> bool" where
  "df_empty jobs =
     (jobs = [] \<or>
      \<not> (has_column jobID jobs \<or> has_column updated jobs \<or> has_column status jobs \<or>
         has_column processID jobs \<or> has_column type' jobs \<or> has_column submitter jobs))"

subsection \<open>KPIs (lines 62 to 75)\<close>

record kpis =
  total_jobs :: nat
  unique_processes :: nat
  last_seen :: "int option"
  successful :: nat
  failed :: nat
  running :: nat

definition count_status :: "string \<Rightarrow> job list \<Rightarrow> nat" where
  "count_status s display_df =
     (if has_column status display_df
      then length (filter (\<lambda>j. status j = Val s) display_df) else 0)"

definition kpis_block :: "job list \<Rightarrow> kpis" where
  "kpis_block display_df =
     \<lparr>total_jobs = length display_df,
      unique_processes =
        (if has_column processID display_df
         then length (remdups (dropna (map processID display_df))) else 0),
      last_seen =
        (if has_column updated display_df \<and> \<not> list_all isna (map updated display_df)
         then Some (Max (set (dropna (map updated display_df)))) else None),
      successful = count_status ''successful'' display_df,
      failed = count_status ''failed'' display_df,
      running = count_status ''running'' display_df\<rparr>"

subsection \<open>Dynamic bucket (lines 89 to 102)\<close>

definition Timedelta_days :: "int \<Rightarrow> int" where
  "Timedelta_days d = d * 86400000000000"

definition Timedelta_hours :: "int \<Rightarrow> int" where
  "Timedelta_hours h = h * 3600000000000"

definition dynamic_bucket :: "int \<Rightarrow> string" where
  "dynamic_bucket span =
     (if span \<ge> Timedelta_days 7 then ''1d''
      else if span \<ge> Timedelta_days 2 then ''12h''
      else if span \<ge> Timedelta_hours 6 then ''1h''
      else ''15min'')"

text \<open>
  The largest \<^verbatim>\<open>pd.Timedelta\<close>: a Timedelta is a count of nanoseconds held in 64 bits
  as well.
\<close>

definition Timedelta_max :: int where
  "Timedelta_max = 9223372036854775807"

text \<open>
  The bucket of a job list, when the time chart is drawn at all: the column exists and
  not every cell of it is NaT; minimum and maximum skip the NaT cells. Line 92 subtracts
  two Timestamps, the earliest from the latest, so the difference is never negative; when
  it is larger than the largest Timedelta the subtraction raises
  \<^verbatim>\<open>OutOfBoundsDatetime\<close>, which nothing catches.
\<close>

definition time_bucket :: "job list \<Rightarrow> exn + string option" where
  "time_bucket display_df =
     (if has_column updated display_df \<and> \<not> list_all isna (map updated display_df) then
        (let min_ts = Min (set (dropna (map updated display_df)));
             max_ts = Max (set (dropna (map updated display_df)))
         in if max_ts - min_ts > Timedelta_max then Inl OutOfBoundsDatetime
            else (let span = max_ts - min_ts in Inr (Some (dynamic_bucket span))))
      else Inr None)"

subsection \<open>Distributions with overflow (lines 133 to 182)\<close>

text \<open>
  \<^verbatim>\<open>Series.value_counts()\<close>: the cells that are not NA, one row per distinct value with
  the number of its occurrences, in descending order of the count. Values with equal
  counts are kept here in the order of their first occurrence; the source does not fix
  that order and no statement below depends on it.
\<close>

definition first_seen :: "'a list \<Rightarrow> 'a list" where
  "first_seen xs = rev (remdups (rev xs))"

definition value_counts :: "'a field list \<Rightarrow> ('a \<times> nat) list" where
  "value_counts col =
     (let vs = dropna col
      in sort_key (\<lambda>r. - int (snd r)) (map (\<lambda>v. (v, count_list vs v)) (first_seen vs)))"

text \<open>
  Lines 141 to 151 and again 172 to 182: beyond \<open>top_n\<close> rows, the tail is replaced by one
  row \<^verbatim>\<open>"other"\<close> holding the sum of the tail's counts.
\<close>

definition top_n_overflow :: "nat \<Rightarrow> (string \<times> nat) list \<Rightarrow> (string \<times> nat) list" where
  "top_n_overflow top_n counts =
     (if length counts > top_n then
        (let others = sum_list (map snd (drop top_n counts))
         in take top_n counts @ [(''other'', others)])
      else counts)"

text \<open>
  Line 136: \<^verbatim>\<open>astype(str)\<close> turns NaN into \<^verbatim>\<open>"nan"\<close> and \<^verbatim>\<open>None\<close> into
  \<^verbatim>\<open>"None"\<close>; the title is looked up in the process map, with the identifier itself as
  the default.
\<close>

fun astype_str :: "string field \<Rightarrow> string" where
  "astype_str Missing = ''nan''"
| "astype_str PyNone = ''None''"
| "astype_str (Val s) = s"

definition process_title :: "(string \<rightharpoonup> string) \<Rightarrow> string field \<Rightarrow> string" where
  "process_title process_map c =
     (let x = astype_str c in case process_map x of None \<Rightarrow> x | Some t \<Rightarrow> t)"

definition proc_counts :: "(string \<rightharpoonup> string) \<Rightarrow> job list \<Rightarrow> (string \<times> nat) list" where
  "proc_counts process_map display_df =
     top_n_overflow 10
       (value_counts (map (\<lambda>j. Val (process_title process_map (processID j))) display_df))"

definition sub_counts :: "job list \<Rightarrow> (string \<times> nat) list" where
  "sub_counts display_df = top_n_overflow 10 (value_counts (map submitter display_df))"

subsection \<open>render\_jobs\_overview\<close>

text \<open>
  What the function puts on the page: the single notice of the empty case, or the KPIs
  and the charts row. Of the time chart only the bucket is kept; the grouping of line 105
  needs the column \<^verbatim>\<open>status\<close> and raises without it. An exception of the span
  (line 92) ends the function before any chart.
\<close>

datatype distribution =
    No_processID
  | Process_pie "(string \<times> nat) list"
  | Process_pie_and_submitter_bar "(string \<times> nat) list" "(string \<times> nat) list"

datatype charts =
    No_timestamps
  | Time_chart string distribution

datatype rendered =
    Info string
  | Overview kpis charts

definition charts_row :: "(string \<rightharpoonup> string) \<Rightarrow> job list \<Rightarrow> exn + charts" where
  "charts_row process_map display_df =
     (case time_bucket display_df of
        Inl e \<Rightarrow> Inl e
      | Inr None \<Rightarrow> Inr No_timestamps
      | Inr (Some bucket) \<Rightarrow>
          if \<not> has_column status display_df then Inl (KeyError ''status'')
          else if has_column processID display_df then
            (if has_column submitter display_df
             then Inr (Time_chart bucket
                    (Process_pie_and_submitter_bar
                       (proc_counts process_map display_df) (sub_counts display_df)))
             else Inr (Time_chart bucket (Process_pie (proc_counts process_map display_df))))
          else Inr (Time_chart bucket No_processID))"

definition render_jobs_overview ::
  "server \<Rightarrow> job list \<Rightarrow> SepexAPI \<Rightarrow> request list \<Rightarrow> (exn + rendered) \<times> request list" where
  "render_jobs_overview srv jobs api sent =
     (if df_empty jobs then (Inr (Info ''No jobs available for overview charts.''), sent)
      else
        (case get_process_maps srv api sent of
           (Inl e, sent') \<Rightarrow> (Inl e, sent')
         | (Inr (process_map, process_status_map), sent') \<Rightarrow>
             (case charts_row process_map jobs of
                Inl e \<Rightarrow> (Inl e, sent')
              | Inr ch \<Rightarrow> (Inr (Overview (kpis_block jobs) ch), sent'))))"

section \<open>home.py: the page\<close>

subsection \<open>The Job schema and the two job listings\<close>

text \<open>
  \<^verbatim>\<open>class Job(BaseModel)\<close>: every key is required; \<^verbatim>\<open>type\<close> and \<^verbatim>\<open>submitter\<close> may be
  null. How a JSON value is read as a \<^verbatim>\<open>datetime\<close> is the parameter \<open>to_datetime\<close>.
\<close>

definition get_opt_str :: "(string \<times> json) list \<Rightarrow> string \<Rightarrow> string field option" where
  "get_opt_str kv k =
     (case map_of kv k of
        Some (JStr s) \<Rightarrow> Some (Val s)
      | Some JNull \<Rightarrow> Some PyNone
      | _ \<Rightarrow> None)"

definition Job_model :: "(json \<Rightarrow> int option) \<Rightarrow> (string \<times> json) list \<Rightarrow> job option" where
  "Job_model to_datetime kv =
     (case get_str kv ''jobID'' of None \<Rightarrow> None | Some i \<Rightarrow>
     (case Option.bind (map_of kv ''updated'') to_datetime of None \<Rightarrow> None | Some u \<Rightarrow>
     (case get_str kv ''status'' of None \<Rightarrow> None | Some st \<Rightarrow>
     (case get_str kv ''processID'' of None \<Rightarrow> None | Some p \<Rightarrow>
     (case get_opt_str kv ''type'' of None \<Rightarrow> None | Some ty \<Rightarrow>
     (case get_opt_str kv ''submitter'' of None \<Rightarrow> None | Some su \<Rightarrow>
        Some \<lparr>jobID = Val i, updated = Val u, status = Val st, processID = Val p,
              type' = ty, submitter = su\<rparr>))))))"

text \<open>
  Lines 27 to 32: all jobs are fetched with \<^verbatim>\<open>params={"limit": 500, "offset": 0}\<close>; a
  result that is not a data frame becomes the empty data frame; its records go to the
  overview.
\<close>

definition fetch_all_jobs ::
  "server \<Rightarrow> SepexAPI \<Rightarrow> (json \<Rightarrow> int option) \<Rightarrow> request list \<Rightarrow>
   (exn + job list option) \<times> request list" where
  "fetch_all_jobs srv api to_datetime sent =
     fetch_table srv api ''jobs'' (Job_model to_datetime)
       (Some [(''limit'', JInt 500), (''offset'', JInt 0)]) sent"

definition jobs_overview ::
  "server \<Rightarrow> SepexAPI \<Rightarrow> (json \<Rightarrow> int option) \<Rightarrow> request list \<Rightarrow>
   (exn + rendered) \<times> request list" where
  "jobs_overview srv api to_datetime sent =
     (case fetch_all_jobs srv api to_datetime sent of
        (Inl e, sent') \<Rightarrow> (Inl e, sent')
      | (Inr raw_all, sent') \<Rightarrow>
          (let df_all = (case raw_all of Some rows \<Rightarrow> rows | None \<Rightarrow> [])
           in render_jobs_overview srv df_all api sent'))"

text \<open>
  Lines 67 to 73: the jobs of the selected process are fetched with
  \<^verbatim>\<open>params={"limit": 1000, "processID": selected_process_id}\<close>; \<^verbatim>\<open>None\<close> and the empty
  data frame both give the notice. The filters of the table are not part of this model.
\<close>

datatype jobs_panel =
    No_jobs_found
  | Jobs_table "job list"

definition jobs_column ::
  "server \<Rightarrow> SepexAPI \<Rightarrow> (json \<Rightarrow> int option) \<Rightarrow> string option \<Rightarrow> request list \<Rightarrow>
   (exn + jobs_panel) \<times> request list" where
  "jobs_column srv api to_datetime selected_process_id sent =
     (let params = [(''limit'', JInt 1000),
                    (''processID'', case selected_process_id of None \<Rightarrow> JNull | Some p \<Rightarrow> JStr p)]
      in case fetch_table srv api ''jobs'' (Job_model to_datetime) (Some params) sent of
           (Inl e, sent') \<Rightarrow> (Inl e, sent')
         | (Inr None, sent') \<Rightarrow> (Inr No_jobs_found, sent')
         | (Inr (Some []), sent') \<Rightarrow> (Inr No_jobs_found, sent')
         | (Inr (Some (r # rs)), sent') \<Rightarrow> (Inr (Jobs_table (r # rs)), sent'))"

subsection \<open>The metadata detail (lines 238 to 273)\<close>

text \<open>
  \<^verbatim>\<open>JobMetadataResponse(**raw).model_dump()\<close>: the dump of a payload that has the shape
  of the schema (with its two nested schemas), \<open>None\<close> on a validation error.
\<close>

definition ImageInfo_dump :: "json \<Rightarrow> json option" where
  "ImageInfo_dump v =
     (case v of
        JObj kv \<Rightarrow>
          (case get_str kv ''imageDigest'' of None \<Rightarrow> None | Some d \<Rightarrow>
          (case get_str kv ''imageURI'' of None \<Rightarrow> None | Some u \<Rightarrow>
             Some (JObj [(''imageDigest'', JStr d), (''imageURI'', JStr u)])))
      | _ \<Rightarrow> None)"

definition ProcessMeta_dump :: "json \<Rightarrow> json option" where
  "ProcessMeta_dump v =
     (case v of
        JObj kv \<Rightarrow>
          (case get_str kv ''processId'' of None \<Rightarrow> None | Some i \<Rightarrow>
          (case get_str kv ''processVersion'' of None \<Rightarrow> None | Some pv \<Rightarrow>
             Some (JObj [(''processId'', JStr i), (''processVersion'', JStr pv)])))
      | _ \<Rightarrow> None)"

definition JobMetadataResponse_dump :: "(string \<times> json) list \<Rightarrow> json option" where
  "JobMetadataResponse_dump kv =
     (case get_str kv ''context'' of None \<Rightarrow> None | Some c \<Rightarrow>
     (case get_str kv ''apiJobId'' of None \<Rightarrow> None | Some a \<Rightarrow>
     (case get_str_list kv ''commands'' of None \<Rightarrow> None | Some cs \<Rightarrow>
     (case get_str kv ''endedAtTime'' of None \<Rightarrow> None | Some e \<Rightarrow>
     (case get_str kv ''generatedAtTime'' of None \<Rightarrow> None | Some g \<Rightarrow>
     (case Option.bind (map_of kv ''image'') ImageInfo_dump of None \<Rightarrow> None | Some im \<Rightarrow>
     (case Option.bind (map_of kv ''process'') ProcessMeta_dump of None \<Rightarrow> None | Some pm \<Rightarrow>
     (case get_str kv ''startedAtTime'' of None \<Rightarrow> None | Some st \<Rightarrow>
        Some (JObj [(''context'', JStr c), (''apiJobId'', JStr a),
                    (''commands'', JArr (map JStr cs)), (''endedAtTime'', JStr e),
                    (''generatedAtTime'', JStr g), (''image'', im), (''process'', pm),
                    (''startedAtTime'', JStr st)])))))))))"

text \<open>The three variables of the loop.\<close>

record meta_state =
  meta_data :: "json option"
  last_status :: "nat option"
  last_error :: "string option"

text \<open>
  The loop over \<^verbatim>\<open>urls_to_try\<close>. An exception of \<^verbatim>\<open>requests.get\<close> is caught and its
  text kept; a status other than 200 is kept and the next URL tried; a status 200 ends the
  loop. Only the validation error is caught there: a body that is not JSON, or not a
  mapping, raises out of the loop.
\<close>

fun metadata_loop ::
  "server \<Rightarrow> string list \<Rightarrow> meta_state \<Rightarrow> request list \<Rightarrow> (exn + meta_state) \<times> request list" where
  "metadata_loop srv [] st sent = (Inr st, sent)"
| "metadata_loop srv (u # us) st sent =
     (case requests_get srv u [] sent of
        (Failed msg, sent') \<Rightarrow> metadata_loop srv us (st\<lparr>last_error := Some msg\<rparr>) sent'
      | (Response status_code body, sent') \<Rightarrow>
          (let st' = st\<lparr>last_status := Some status_code\<rparr>
           in if status_code = 200 then
                (case body of
                   None \<Rightarrow> (Inl JSONDecodeError, sent')
                 | Some (JObj kv) \<Rightarrow>
                     (Inr (st'\<lparr>meta_data :=
                              Some (case JobMetadataResponse_dump kv of
                                      Some dump \<Rightarrow> dump
                                    | None \<Rightarrow> JObj kv)\<rparr>), sent')
                 | Some raw \<Rightarrow> (Inl TypeError, sent'))
              else metadata_loop srv us st' sent'))"

text \<open>
  Lines 265 to 273: the metadata, or one of three error banners. \<^verbatim>\<open>if last_error\<close> is
  false for \<^verbatim>\<open>None\<close> and for the empty text.
\<close>

datatype metadata_panel =
    Json_shown json
  | Error_last_error string
  | Error_last_status nat
  | Error_unknown

definition metadata_banner :: "meta_state \<Rightarrow> metadata_panel" where
  "metadata_banner st =
     (case meta_data st of
        Some m \<Rightarrow> Json_shown m
      | None \<Rightarrow>
          (if last_error st \<noteq> None \<and> last_error st \<noteq> Some [] then
             Error_last_error (case last_error st of Some e \<Rightarrow> e | None \<Rightarrow> [])
           else
             (case last_status st of
                Some c \<Rightarrow> Error_last_status c
              | None \<Rightarrow> Error_unknown)))"

definition urls_to_try :: "string \<Rightarrow> string \<Rightarrow> string list" where
  "urls_to_try base selected_job_id =
     [base @ ''/jobs/'' @ selected_job_id @ ''/metadata'',
      base @ ''/jobs/'' @ selected_job_id]"

definition metadata_detail ::
  "server \<Rightarrow> SepexAPI \<Rightarrow> string \<Rightarrow> request list \<Rightarrow> (exn + metadata_panel) \<times> request list" where
  "metadata_detail srv api selected_job_id sent =
     (case metadata_loop srv (urls_to_try (base_url api) selected_job_id)
             \<lparr>meta_data = None, last_status = None, last_error = None\<rparr> sent of
        (Inl e, sent') \<Rightarrow> (Inl e, sent')
      | (Inr st, sent') \<Rightarrow> (Inr (metadata_banner st), sent'))"

section \<open>The second run of a breakdown, as the specification words it\<close>

text \<open>
  The specification speaks of running the breakdown again on its own output, each row
  being one occurrence that carries its count. The source has no such function; this one
  follows the specification's words: the rows are grouped by label in the order of first
  occurrence, the counts of a label are added up, the groups are put in descending order
  of the count, and the overflow rule of the source is applied.
\<close>

definition weighted_value_counts :: "('a \<times> nat) list \<Rightarrow> ('a \<times> nat) list" where
  "weighted_value_counts rows =
     sort_key (\<lambda>r. - int (snd r))
       (map (\<lambda>v. (v, sum_list (map snd (filter (\<lambda>r. fst r = v) rows))))
            (first_seen (map fst rows)))"

definition breakdown_again :: "nat \<Rightarrow> (string \<times> nat) list \<Rightarrow> (string \<times> nat) list" where
  "breakdown_again top_n rows = top_n_overflow top_n (weighted_value_counts rows)"

section \<open>Properties of the API client\<close>

subsection \<open>The request of a collection fetch\<close>

text \<open>
  Claim C7 says that every collection fetch sends its GET with the query parameters that
  the caller supplied, the listing of \<^verbatim>\<open>/jobs\<close> with \<^verbatim>\<open>limit\<close>, \<^verbatim>\<open>offset\<close> and
  \<^verbatim>\<open>processID\<close>. The code takes the parameters and sends none of them: whatever
  \<open>params\<close> is, the one request that \<open>fetch_table\<close> adds to the requests sent is the
  bare URL with an empty query.
\<close>

theorem fetch_table_sends_no_query:
  "snd (fetch_table srv api endpoint model_cls params sent) =
     sent @ [\<lparr>url = base_url api @ ''/'' @ endpoint, query = []\<rparr>]"
  by (simp add: fetch_table_def requests_get_def Let_def
      split: http_outcome.splits option.splits sum.splits)

theorem fetch_all_jobs_sends_no_query:
  "snd (fetch_all_jobs (\<lambda>r. Response 200 (Some (JArr [])))
          (SepexAPI_init ''http://localhost:5050/'') (\<lambda>v. None) []) =
     [\<lparr>url = ''http://localhost:5050/jobs'', query = []\<rparr>]"
  using fetch_table_sends_no_query [of "\<lambda>r. Response 200 (Some (JArr []))"
      "SepexAPI_init ''http://localhost:5050/''" "''jobs''" "Job_model (\<lambda>v. None)"
      "Some [(''limit'', JInt 500), (''offset'', JInt 0)]" "[]"]
  by (simp add: fetch_all_jobs_def SepexAPI_init_def rstrip_slash_def)

subsection \<open>Unwrapping the envelope\<close>

lemma first_list_skip:
  "\<forall>xs. JArr xs \<notin> set pre \<Longrightarrow> first_list (pre @ JArr a # post) = Some (JArr a)"
  by (induction pre rule: first_list.induct) auto

text \<open>
  Claim C4. For every JSON array \<open>a\<close>, the fetch answered with the object
  \<^verbatim>\<open>{"jobs": a}\<close> gives what the fetch answered with the bare array \<open>a\<close> gives:
  the records validated from the elements of \<open>a\<close> in their order (or the exception of
  the first element that fails), after the same single request. More generally, when the
  answer is an object, its first field whose value is an array is taken as the
  collection: the fields before it hold no array, the fields after it are not looked at.
\<close>

theorem fetch_table_envelope:
  "(let req = \<lparr>url = base_url api @ ''/'' @ endpoint, query = []\<rparr>;
        records = (case build_items model_cls a of
                     Inl e \<Rightarrow> Inl e | Inr items \<Rightarrow> Inr (Some items))
    in (srv req = Response 200 (Some (JArr a)) \<longrightarrow>
          fetch_table srv api endpoint model_cls params sent = (records, sent @ [req]))
     \<and> (srv req = Response 200 (Some (JObj [(''jobs'', JArr a)])) \<longrightarrow>
          fetch_table srv api endpoint model_cls params sent = (records, sent @ [req]))
     \<and> ((\<forall>xs. JArr xs \<notin> snd ` set pre)
          \<and> srv req = Response 200 (Some (JObj (pre @ (k, JArr a) # post))) \<longrightarrow>
          unwrap_envelope (JObj (pre @ (k, JArr a) # post)) = JArr a
        \<and> fetch_table srv api endpoint model_cls params sent = (records, sent @ [req])))"
proof -
  have one: "unwrap_envelope (JObj [(''jobs'', JArr a)]) = JArr a"
    by (simp add: unwrap_envelope_def)
  have bare: "unwrap_envelope (JArr a) = JArr a"
    by (simp add: unwrap_envelope_def)
  have gen: "unwrap_envelope (JObj (pre @ (k, JArr a) # post)) = JArr a"
    if "\<forall>xs. JArr xs \<notin> snd ` set pre"
  proof -
    from that have "\<forall>xs. JArr xs \<notin> set (map snd pre)" by simp
    then have "first_list (map snd pre @ JArr a # map snd post) = Some (JArr a)"
      by (rule first_list_skip)
    then show ?thesis by (simp add: unwrap_envelope_def)
  qed
  show ?thesis
    using gen
    by (auto simp: Let_def fetch_table_def requests_get_def one bare split: sum.splits)
qed

theorem fetch_table_envelope_witness:
  "fetch_table
     (\<lambda>r. Response 200
        (Some (JObj [(''links'', JStr ''next''), (''jobs'', JArr [JObj []]), (''more'', JArr [])])))
     \<lparr>base_url = ''http://h''\<rparr> ''jobs'' Process_model None [] =
   fetch_table (\<lambda>r. Response 200 (Some (JArr [JObj []])))
     \<lparr>base_url = ''http://h''\<rparr> ''jobs'' Process_model None []
   \<and> fetch_table (\<lambda>r. Response 200 (Some (JObj [(''jobs'', JArr [JObj []])])))
     \<lparr>base_url = ''http://h''\<rparr> ''jobs'' Process_model None [] =
   (Inl ValidationError, [\<lparr>url = ''http://h/jobs'', query = []\<rparr>])"
  using fetch_table_envelope [of "\<lparr>base_url = ''http://h''\<rparr>" "''jobs''" Process_model "[JObj []]"
      "\<lambda>r. Response 200
        (Some (JObj [(''links'', JStr ''next''), (''jobs'', JArr [JObj []]), (''more'', JArr [])]))"
      None "[]" "[(''links'', JStr ''next'')]" "''jobs''" "[(''more'', JArr [])]"]
   fetch_table_envelope [of "\<lparr>base_url = ''http://h''\<rparr>" "''jobs''" Process_model "[JObj []]"
      "\<lambda>r. Response 200 (Some (JArr [JObj []]))" None "[]" "[]" "''jobs''" "[]"]
   fetch_table_envelope [of "\<lparr>base_url = ''http://h''\<rparr>" "''jobs''" Process_model "[JObj []]"
      "\<lambda>r. Response 200 (Some (JObj [(''jobs'', JArr [JObj []])]))" None "[]" "[]" "''jobs''" "[]"]
  by (simp add: Let_def Process_model_def get_str_def)

section \<open>Properties of the jobs overview\<close>

subsection \<open>Columns\<close>

lemma dropna_empty: "dropna col = [] \<longleftrightarrow> list_all isna col"
  by (induction col rule: dropna.induct) auto

lemma dropna_has_column: "dropna (map f jobs) \<noteq> [] \<Longrightarrow> has_column f jobs"
  by (induction jobs) (auto simp: has_column_def split: field.splits if_splits)

subsection \<open>The bucket of the time chart\<close>

text \<open>
  Claim C2, as the code has it. Take any job list with at least one timestamp in
  \<^verbatim>\<open>updated\<close> (so any non-empty list whose timestamps all parsed), and let the span be
  the latest timestamp minus the earliest. In nanoseconds, 7 days are 604800000000000,
  2 days are 172800000000000, 6 hours are 21600000000000, and the largest Timedelta is
  9223372036854775807 (about 292 years). When the span is at most the largest Timedelta,
  the bucket is chosen from it: a span of at least 7 days gives \<^verbatim>\<open>1d\<close>, from 2 days up to
  7 days \<^verbatim>\<open>12h\<close>, from 6 hours up to 2 days \<^verbatim>\<open>1h\<close>, below 6 hours \<^verbatim>\<open>15min\<close>; a span
  of exactly 6 hours gives \<^verbatim>\<open>1h\<close>; and every time chart that is drawn for the list has
  this bucket. When the span is larger than the largest Timedelta, no bucket is chosen:
  the subtraction raises and the charts row raises with it.
\<close>

theorem time_bucket_by_span:
  assumes "dropna (map updated jobs) \<noteq> []"
  shows "(let span = Max (set (dropna (map updated jobs))) - Min (set (dropna (map updated jobs)))
      in (span \<le> 9223372036854775807 \<longrightarrow>
           (\<exists>b. time_bucket jobs = Inr (Some b) \<and>
              (604800000000000 \<le> span \<longrightarrow> b = ''1d'') \<and>
              (172800000000000 \<le> span \<and> span < 604800000000000 \<longrightarrow> b = ''12h'') \<and>
              (21600000000000 \<le> span \<and> span < 172800000000000 \<longrightarrow> b = ''1h'') \<and>
              (span < 21600000000000 \<longrightarrow> b = ''15min'') \<and>
              (span = 21600000000000 \<longrightarrow> b = ''1h'') \<and>
              (\<forall>process_map b' d.
                 charts_row process_map jobs = Inr (Time_chart b' d) \<longrightarrow> b' = b)))
       \<and> (9223372036854775807 < span \<longrightarrow>
           time_bucket jobs = Inl OutOfBoundsDatetime
         \<and> (\<forall>process_map. charts_row process_map jobs = Inl OutOfBoundsDatetime)))"
proof -
  have col: "has_column updated jobs"
    using assms by (rule dropna_has_column)
  have na: "\<not> list_all isna (map updated jobs)"
    using assms by (simp add: dropna_empty)
  define span where
    "span = Max (set (dropna (map updated jobs))) - Min (set (dropna (map updated jobs)))"
  have small: "\<exists>b. time_bucket jobs = Inr (Some b) \<and>
         (604800000000000 \<le> span \<longrightarrow> b = ''1d'') \<and>
         (172800000000000 \<le> span \<and> span < 604800000000000 \<longrightarrow> b = ''12h'') \<and>
         (21600000000000 \<le> span \<and> span < 172800000000000 \<longrightarrow> b = ''1h'') \<and>
         (span < 21600000000000 \<longrightarrow> b = ''15min'') \<and>
         (span = 21600000000000 \<longrightarrow> b = ''1h'') \<and>
         (\<forall>process_map b' d.
            charts_row process_map jobs = Inr (Time_chart b' d) \<longrightarrow> b' = b)"
    if fits: "span \<le> 9223372036854775807"
  proof -
    have b: "time_bucket jobs = Inr (Some (dynamic_bucket span))"
      using col na fits by (simp add: time_bucket_def Timedelta_max_def Let_def span_def)
    have th: "(604800000000000 \<le> span \<longrightarrow> dynamic_bucket span = ''1d'') \<and>
         (172800000000000 \<le> span \<and> span < 604800000000000 \<longrightarrow> dynamic_bucket span = ''12h'') \<and>
         (21600000000000 \<le> span \<and> span < 172800000000000 \<longrightarrow> dynamic_bucket span = ''1h'') \<and>
         (span < 21600000000000 \<longrightarrow> dynamic_bucket span = ''15min'') \<and>
         (span = 21600000000000 \<longrightarrow> dynamic_bucket span = ''1h'')"
      by (simp add: dynamic_bucket_def Timedelta_days_def Timedelta_hours_def)
    have ch: "\<forall>process_map b' d.
        charts_row process_map jobs = Inr (Time_chart b' d) \<longrightarrow> b' = dynamic_bucket span"
      by (auto simp: charts_row_def b split: if_splits)
    show ?thesis
      using b th ch by blast
  qed
  have large: "time_bucket jobs = Inl OutOfBoundsDatetime
         \<and> (\<forall>process_map. charts_row process_map jobs = Inl OutOfBoundsDatetime)"
    if over: "9223372036854775807 < span"
  proof -
    have b: "time_bucket jobs = Inl OutOfBoundsDatetime"
      using col na over by (simp add: time_bucket_def Timedelta_max_def Let_def span_def)
    then show ?thesis
      by (simp add: charts_row_def)
  qed
  show ?thesis
    unfolding Let_def span_def [symmetric]
    using small large by blast
qed

theorem time_bucket_by_span_witness:
  "time_bucket
     [\<lparr>jobID = Val ''a'', updated = Val 1000, status = Val ''successful'',
        processID = Val ''p'', type' = PyNone, submitter = PyNone\<rparr>,
      \<lparr>jobID = Val ''b'', updated = Val 21600000001000, status = Val ''failed'',
        processID = Val ''p'', type' = PyNone, submitter = PyNone\<rparr>] = Inr (Some ''1h'')
   \<and> charts_row Map.empty
     [\<lparr>jobID = Val ''a'', updated = Val 1000, status = Val ''successful'',
        processID = Val ''p'', type' = PyNone, submitter = PyNone\<rparr>,
      \<lparr>jobID = Val ''b'', updated = Val 21600000001000, status = Val ''failed'',
        processID = Val ''p'', type' = PyNone, submitter = PyNone\<rparr>] =
     Inr (Time_chart ''1h'' (Process_pie_and_submitter_bar [(''p'', 2)] []))
   \<and> time_bucket
     [\<lparr>jobID = Val ''c'', updated = Val (- 9000000000000000000), status = Val ''failed'',
        processID = Val ''p'', type' = PyNone, submitter = PyNone\<rparr>,
      \<lparr>jobID = Val ''d'', updated = Val 9000000000000000000, status = Val ''failed'',
        processID = Val ''p'', type' = PyNone, submitter = PyNone\<rparr>] = Inl OutOfBoundsDatetime"
proof -
  let ?jobs =
    "[\<lparr>jobID = Val ''a'', updated = Val 1000, status = Val ''successful'',
        processID = Val ''p'', type' = PyNone, submitter = PyNone\<rparr>,
      \<lparr>jobID = Val ''b'', updated = Val 21600000001000, status = Val ''failed'',
        processID = Val ''p'', type' = PyNone, submitter = PyNone\<rparr>]"
  let ?far =
    "[\<lparr>jobID = Val ''c'', updated = Val (- 9000000000000000000), status = Val ''failed'',
        processID = Val ''p'', type' = PyNone, submitter = PyNone\<rparr>,
      \<lparr>jobID = Val ''d'', updated = Val 9000000000000000000, status = Val ''failed'',
        processID = Val ''p'', type' = PyNone, submitter = PyNone\<rparr>]"
  have h: "dropna (map updated ?jobs) \<noteq> []"
    by simp
  have span: "Max (set (dropna (map updated ?jobs))) - Min (set (dropna (map updated ?jobs)))
      = 21600000000000"
    by simp
  from time_bucket_by_span [OF h] span obtain b where
    b: "time_bucket ?jobs = Inr (Some b)"
    and six: "b = ''1h''"
    and ch: "\<forall>process_map b' d.
        charts_row process_map ?jobs = Inr (Time_chart b' d) \<longrightarrow> b' = b"
    unfolding Let_def by auto
  have "\<exists>b' d. charts_row Map.empty ?jobs = Inr (Time_chart b' d)
      \<and> d = Process_pie_and_submitter_bar [(''p'', 2)] []"
    by (simp add: charts_row_def time_bucket_def has_column_def dynamic_bucket_def
        Timedelta_days_def Timedelta_hours_def Timedelta_max_def proc_counts_def
        sub_counts_def value_counts_def top_n_overflow_def first_seen_def process_title_def
        Let_def)
  then obtain b' where
    c: "charts_row Map.empty ?jobs =
          Inr (Time_chart b' (Process_pie_and_submitter_bar [(''p'', 2)] []))"
    by blast
  then have "b' = b"
    using ch by blast
  then have near: "time_bucket ?jobs = Inr (Some ''1h'')
      \<and> charts_row Map.empty ?jobs =
          Inr (Time_chart ''1h'' (Process_pie_and_submitter_bar [(''p'', 2)] []))"
    using b six c by simp
  have h': "dropna (map updated ?far) \<noteq> []"
    by simp
  have span': "Max (set (dropna (map updated ?far))) - Min (set (dropna (map updated ?far)))
      = 18000000000000000000"
    by simp
  from time_bucket_by_span [OF h'] span'
  have far: "time_bucket ?far = Inl OutOfBoundsDatetime"
    unfolding Let_def by simp
  show ?thesis
    using near far by simp
qed

text \<open>
  Against claim C2 as stated: two jobs updated on 1700-01-01 and on 2200-01-01, which
  are the Timestamps -8520336000000000000 and 7258118400000000000, have a span of more
  than 7 days, and no bucket of one day is chosen for them: the span is larger than the
  largest Timedelta, so the subtraction raises and with it the overview.
\<close>

theorem time_bucket_span_out_of_bounds:
  "time_bucket
     [\<lparr>jobID = Val ''old'', updated = Val (- 8520336000000000000), status = Val ''failed'',
        processID = Val ''p'', type' = PyNone, submitter = PyNone\<rparr>,
      \<lparr>jobID = Val ''new'', updated = Val 7258118400000000000, status = Val ''failed'',
        processID = Val ''p'', type' = PyNone, submitter = PyNone\<rparr>] = Inl OutOfBoundsDatetime
   \<and> fst (render_jobs_overview (\<lambda>r. Response 404 None)
     [\<lparr>jobID = Val ''old'', updated = Val (- 8520336000000000000), status = Val ''failed'',
        processID = Val ''p'', type' = PyNone, submitter = PyNone\<rparr>,
      \<lparr>jobID = Val ''new'', updated = Val 7258118400000000000, status = Val ''failed'',
        processID = Val ''p'', type' = PyNone, submitter = PyNone\<rparr>]
     \<lparr>base_url = ''http://h''\<rparr> []) = Inl OutOfBoundsDatetime"
  by (simp add: time_bucket_def has_column_def Timedelta_max_def render_jobs_overview_def
      df_empty_def get_process_maps_def fetch_processes_dict_def requests_get_def
      charts_row_def)

subsection \<open>The KPIs\<close>

lemma no_status_column:
  "\<not> has_column status jobs \<Longrightarrow> filter (\<lambda>j. status j = Val s) jobs = []"
  by (auto simp: has_column_def list_ex_iff filter_empty_conv)

lemma count_status_eq: "count_status s jobs = length (filter (\<lambda>j. status j = Val s) jobs)"
  by (simp add: count_status_def no_status_column)

text \<open>
  Claim C6. For the three jobs with the statuses successful, failed, successful (and no
  other key), the KPIs are: total 3, successful 2, failed 1, running 0. For every job
  list, the total is the length of the list and each of the three status counts is the
  number of jobs whose status is exactly that text; these are the KPIs of every overview
  that is rendered.
\<close>

theorem kpis_block_counts:
  "kpis_block
     [\<lparr>jobID = Missing, updated = Missing, status = Val ''successful'', processID = Missing,
        type' = Missing, submitter = Missing\<rparr>,
      \<lparr>jobID = Missing, updated = Missing, status = Val ''failed'', processID = Missing,
        type' = Missing, submitter = Missing\<rparr>,
      \<lparr>jobID = Missing, updated = Missing, status = Val ''successful'', processID = Missing,
        type' = Missing, submitter = Missing\<rparr>] =
     \<lparr>total_jobs = 3, unique_processes = 0, last_seen = None,
      successful = 2, failed = 1, running = 0\<rparr>
   \<and> total_jobs (kpis_block jobs) = length jobs
   \<and> successful (kpis_block jobs) = length (filter (\<lambda>j. status j = Val ''successful'') jobs)
   \<and> failed (kpis_block jobs) = length (filter (\<lambda>j. status j = Val ''failed'') jobs)
   \<and> running (kpis_block jobs) = length (filter (\<lambda>j. status j = Val ''running'') jobs)
   \<and> (render_jobs_overview srv jobs api sent = (Inr (Overview k ch), sent') \<longrightarrow>
        k = kpis_block jobs)"
proof -
  have ex: "kpis_block
     [\<lparr>jobID = Missing, updated = Missing, status = Val ''successful'', processID = Missing,
        type' = Missing, submitter = Missing\<rparr>,
      \<lparr>jobID = Missing, updated = Missing, status = Val ''failed'', processID = Missing,
        type' = Missing, submitter = Missing\<rparr>,
      \<lparr>jobID = Missing, updated = Missing, status = Val ''successful'', processID = Missing,
        type' = Missing, submitter = Missing\<rparr>] =
     \<lparr>total_jobs = 3, unique_processes = 0, last_seen = None,
      successful = 2, failed = 1, running = 0\<rparr>"
    by (simp add: kpis_block_def count_status_def has_column_def)
  have gen: "total_jobs (kpis_block jobs) = length jobs"
    "successful (kpis_block jobs) = length (filter (\<lambda>j. status j = Val ''successful'') jobs)"
    "failed (kpis_block jobs) = length (filter (\<lambda>j. status j = Val ''failed'') jobs)"
    "running (kpis_block jobs) = length (filter (\<lambda>j. status j = Val ''running'') jobs)"
    by (simp_all add: kpis_block_def count_status_eq)
  have ov: "k = kpis_block jobs"
    if "render_jobs_overview srv jobs api sent = (Inr (Overview k ch), sent')"
    using that
    by (auto simp: render_jobs_overview_def split: if_splits prod.splits sum.splits)
  show ?thesis using ex gen ov by blast
qed

theorem kpis_block_counts_witness:
  "fst (render_jobs_overview (\<lambda>r. Response 404 None)
     [\<lparr>jobID = Missing, updated = Missing, status = Val ''successful'', processID = Missing,
        type' = Missing, submitter = Missing\<rparr>,
      \<lparr>jobID = Missing, updated = Missing, status = Val ''failed'', processID = Missing,
        type' = Missing, submitter = Missing\<rparr>,
      \<lparr>jobID = Missing, updated = Missing, status = Val ''successful'', processID = Missing,
        type' = Missing, submitter = Missing\<rparr>] \<lparr>base_url = ''http://h''\<rparr> []) =
   Inr (Overview \<lparr>total_jobs = 3, unique_processes = 0, last_seen = None,
      successful = 2, failed = 1, running = 0\<rparr> No_timestamps)"
proof -
  let ?jobs =
    "[\<lparr>jobID = Missing, updated = Missing, status = Val ''successful'', processID = Missing,
        type' = Missing, submitter = Missing\<rparr>,
      \<lparr>jobID = Missing, updated = Missing, status = Val ''failed'', processID = Missing,
        type' = Missing, submitter = Missing\<rparr>,
      \<lparr>jobID = Missing, updated = Missing, status = Val ''successful'', processID = Missing,
        type' = Missing, submitter = Missing\<rparr>]"
  have r: "render_jobs_overview (\<lambda>r. Response 404 None) ?jobs \<lparr>base_url = ''http://h''\<rparr> [] =
     (Inr (Overview (kpis_block ?jobs) No_timestamps),
      [\<lparr>url = ''http://h/processes'', query = []\<rparr>])"
    by (simp add: render_jobs_overview_def df_empty_def has_column_def get_process_maps_def
        fetch_processes_dict_def requests_get_def charts_row_def time_bucket_def)
  from kpis_block_counts [of ?jobs "\<lambda>r. Response 404 None" "\<lparr>base_url = ''http://h''\<rparr>" "[]"
      "kpis_block ?jobs" No_timestamps "[\<lparr>url = ''http://h/processes'', query = []\<rparr>]"]
  have "kpis_block ?jobs = \<lparr>total_jobs = 3, unique_processes = 0, last_seen = None,
      successful = 2, failed = 1, running = 0\<rparr>"
    by blast
  with r show ?thesis by simp
qed

subsection \<open>The empty job list\<close>

text \<open>
  Claim C9. For the empty job list, the overview is the single notice
  \<^verbatim>\<open>No jobs available for overview charts.\<close>: it is a normal return, no KPI and no chart
  is computed and no request is sent. On the page, a jobs listing that is empty, and
  one that failed with a status other than 200, both lead to this notice, and the jobs
  column shows its own notice \<^verbatim>\<open>No jobs found.\<close> in both cases.
\<close>

theorem render_jobs_overview_empty:
  "render_jobs_overview srv [] api sent =
     (Inr (Info ''No jobs available for overview charts.''), sent)
   \<and> (srv \<lparr>url = base_url api @ ''/jobs'', query = []\<rparr> = Response 200 (Some (JArr []))
        \<or> srv \<lparr>url = base_url api @ ''/jobs'', query = []\<rparr> = Response status_code body
          \<and> status_code \<noteq> 200 \<longrightarrow>
        jobs_overview srv api to_datetime sent =
          (Inr (Info ''No jobs available for overview charts.''),
           sent @ [\<lparr>url = base_url api @ ''/jobs'', query = []\<rparr>])
      \<and> jobs_column srv api to_datetime selected_process_id sent =
          (Inr No_jobs_found, sent @ [\<lparr>url = base_url api @ ''/jobs'', query = []\<rparr>]))"
  by (auto simp: render_jobs_overview_def df_empty_def jobs_overview_def fetch_all_jobs_def
      jobs_column_def fetch_table_def requests_get_def unwrap_envelope_def)

theorem render_jobs_overview_empty_witness:
  "jobs_overview (\<lambda>r. Response 200 (Some (JArr []))) \<lparr>base_url = ''http://h''\<rparr> (\<lambda>v. None) [] =
     (Inr (Info ''No jobs available for overview charts.''),
      [\<lparr>url = ''http://h/jobs'', query = []\<rparr>])
   \<and> jobs_column (\<lambda>r. Response 500 None) \<lparr>base_url = ''http://h''\<rparr> (\<lambda>v. None) None [] =
     (Inr No_jobs_found, [\<lparr>url = ''http://h/jobs'', query = []\<rparr>])"
  using render_jobs_overview_empty [of "\<lambda>r. Response 200 (Some (JArr []))"
      "\<lparr>base_url = ''http://h''\<rparr>" "[]" 200 None "\<lambda>v. None" None]
    render_jobs_overview_empty [of "\<lambda>r. Response 500 None"
      "\<lparr>base_url = ''http://h''\<rparr>" "[]" 500 None "\<lambda>v. None" None]
  by simp

subsection \<open>Distributions with overflow\<close>

lemma set_first_seen: "set (first_seen xs) = set xs"
  by (simp add: first_seen_def)

lemma distinct_first_seen: "distinct (first_seen xs)"
  by (simp add: first_seen_def)

lemma length_first_seen: "length (first_seen xs) = card (set xs)"
  using length_remdups_card_conv [of "rev xs"] by (simp add: first_seen_def)

lemma first_seen_distinct: "distinct xs \<Longrightarrow> first_seen xs = xs"
  by (simp add: first_seen_def distinct_remdups_id)

lemma mset_value_counts:
  "mset (value_counts col) =
     mset (map (\<lambda>v. (v, count_list (dropna col) v)) (first_seen (dropna col)))"
  by (simp add: value_counts_def Let_def)

lemma set_value_counts:
  "set (value_counts col) = (\<lambda>v. (v, count_list (dropna col) v)) ` set (dropna col)"
  by (simp add: value_counts_def Let_def set_first_seen)

lemma length_value_counts: "length (value_counts col) = card (set (dropna col))"
  by (simp add: value_counts_def Let_def length_first_seen)

lemma distinct_labels_value_counts: "distinct (map fst (value_counts col))"
proof -
  have "mset (map fst (value_counts col)) = mset (first_seen (dropna col))"
    by (simp add: mset_value_counts image_mset.compositionality comp_def)
  then show ?thesis
    using distinct_first_seen mset_eq_imp_distinct_iff by blast
qed

lemma sorted_value_counts: "sorted (map (\<lambda>r. - int (snd r)) (value_counts col))"
  by (simp add: value_counts_def Let_def)

lemma sum_value_counts: "sum_list (map snd (value_counts col)) = length (dropna col)"
proof -
  let ?vs = "dropna col"
  have "sum_list (map snd (value_counts col)) = sum_mset (image_mset snd (mset (value_counts col)))"
    by (metis mset_map sum_mset_sum_list)
  also have "\<dots> = sum_list (map (count_list ?vs) (first_seen ?vs))"
    by (simp add: mset_value_counts image_mset.compositionality comp_def flip: mset_map sum_mset_sum_list)
  also have "\<dots> = sum (count_list ?vs) (set ?vs)"
    using sum_list_distinct_conv_sum_set [OF distinct_first_seen, of "count_list ?vs" ?vs]
    by (simp add: set_first_seen)
  also have "\<dots> = length ?vs"
    by (rule sum_count_set) simp_all
  finally show ?thesis .
qed

lemma dropna_all_present: "\<forall>c\<in>set col. \<not> isna c \<Longrightarrow> length (dropna col) = length col"
  by (induction col rule: dropna.induct) auto


lemma row_of_value_counts:
  "r \<in> set (value_counts col) \<Longrightarrow>
     fst r \<in> set (dropna col) \<and> snd r = count_list (dropna col) (fst r)"
  by (auto simp: set_value_counts)

lemma labels_value_counts: "fst ` set (value_counts col) = set (dropna col)"
  by (auto simp: set_value_counts image_image)

lemma top_n_overflow_long:
  "n < length rows \<Longrightarrow>
     top_n_overflow n rows = take n rows @ [(''other'', sum_list (map snd (drop n rows)))]"
  by (simp add: top_n_overflow_def)

lemma top_n_overflow_short: "length rows \<le> n \<Longrightarrow> top_n_overflow n rows = rows"
  by (simp add: top_n_overflow_def)

lemma sum_take_drop:
  "sum_list (map snd (take n rows)) + sum_list (map snd (drop n rows)) = sum_list (map snd rows)"
  by (metis append_take_drop_id map_append sum_list_append)

lemma head_not_below_tail:
  assumes "sorted (map (\<lambda>r. - int (snd r)) rows)" "r \<in> set (take n rows)" "q \<in> set (drop n rows)"
  shows "snd q \<le> snd (r :: 'a \<times> nat)"
proof -
  have "sorted (map (\<lambda>r. - int (snd r)) (take n rows) @ map (\<lambda>r. - int (snd r)) (drop n rows))"
    using assms(1) by (metis append_take_drop_id map_append)
  then have "- int (snd r) \<le> - int (snd q)"
    using assms(2,3) by (auto simp: sorted_append)
  then show ?thesis by simp
qed

text \<open>
  Claim C1. Take any column of categorical cells (process titles, submitters) with more
  than 10 distinct values; the cells that are NA are not values and are not counted. The
  breakdown has exactly 11 rows. Its first 10 rows are the first 10 rows of the value
  counts: 10 distinct values, each with the number of its occurrences, and no value left
  out occurs more often than any of them. Its last row is \<^verbatim>\<open>other\<close> with the sum of the
  counts of the rows left out, which is the number of occurrences of all values left
  out. The counts of the 11 rows add up to the number of occurrences in the input, which
  is the number of cells when no cell is NA. Both charts compute this breakdown:
  \<open>proc_counts\<close> on the titles and \<open>sub_counts\<close> on the submitters.
\<close>

theorem top_n_overflow_more_than_10:
  fixes col :: "string field list"
  assumes "10 < card (set (dropna col))"
  shows "(let vs = dropna col; rows = value_counts col; out = top_n_overflow 10 rows in
       length out = 11
     \<and> take 10 out = take 10 rows
     \<and> out ! 10 = (''other'', sum_list (map snd (drop 10 rows)))
     \<and> distinct (map fst (take 10 rows))
     \<and> (\<forall>r\<in>set (take 10 rows). fst r \<in> set vs \<and> snd r = count_list vs (fst r)
          \<and> (\<forall>v\<in>set vs. v \<notin> fst ` set (take 10 rows) \<longrightarrow> count_list vs v \<le> snd r))
     \<and> sum_list (map snd (drop 10 rows)) =
          (\<Sum>v\<in>set vs - fst ` set (take 10 rows). count_list vs v)
     \<and> sum_list (map snd out) = length vs
     \<and> ((\<forall>c\<in>set col. \<not> isna c) \<longrightarrow> sum_list (map snd out) = length col))"
proof -
  define vs where "vs = dropna col"
  define rows where "rows = value_counts col"
  define T where "T = take 10 rows"
  define D where "D = drop 10 rows"
  define out where "out = top_n_overflow 10 rows"
  have len: "10 < length rows"
    using assms by (simp add: rows_def length_value_counts)
  have out: "out = T @ [(''other'', sum_list (map snd D))]"
    using len by (simp add: out_def T_def D_def top_n_overflow_long)
  have lenT: "length T = 10"
    using len by (simp add: T_def)
  have rows: "rows = T @ D"
    by (simp add: T_def D_def)
  have dist: "distinct (map fst T @ map fst D)"
    using distinct_labels_value_counts [of col] by (simp add: rows_def [symmetric] rows)
  have labels: "fst ` set T \<union> fst ` set D = set vs"
    using labels_value_counts [of col] by (simp add: rows_def [symmetric] rows vs_def image_Un)
  have row: "fst r \<in> set vs \<and> snd r = count_list vs (fst r)" if "r \<in> set rows" for r
    using that row_of_value_counts [of r col] by (simp add: rows_def vs_def)
  have c1: "length out = 11"
    by (simp add: out lenT)
  have c2: "take 10 out = T"
    by (simp add: out lenT)
  have c3: "out ! 10 = (''other'', sum_list (map snd D))"
    using lenT by (simp add: out nth_append)
  have c4: "distinct (map fst T)"
    using dist by simp
  have c5: "fst r \<in> set vs \<and> snd r = count_list vs (fst r)
          \<and> (\<forall>v\<in>set vs. v \<notin> fst ` set T \<longrightarrow> count_list vs v \<le> snd r)"
    if r: "r \<in> set T" for r
  proof -
    have "count_list vs v \<le> snd r" if v: "v \<in> set vs" "v \<notin> fst ` set T" for v
    proof -
      from v labels obtain q where q: "q \<in> set D" "fst q = v" by auto
      then have "snd q = count_list vs v"
        using row [of q] by (simp add: rows)
      moreover have "snd q \<le> snd r"
        using sorted_value_counts [of col] r q(1)
        unfolding rows_def [symmetric] T_def D_def by (rule head_not_below_tail)
      ultimately show ?thesis by simp
    qed
    then show ?thesis using row [of r] r by (simp add: rows)
  qed
  have c6: "sum_list (map snd D) = (\<Sum>v\<in>set vs - fst ` set T. count_list vs v)"
  proof -
    have "map snd D = map (count_list vs) (map fst D)"
      using row by (simp add: rows)
    then have "sum_list (map snd D) = sum_list (map (count_list vs) (map fst D))"
      by (simp only:)
    also have "\<dots> = sum (count_list vs) (set (map fst D))"
      using dist by (intro sum_list_distinct_conv_sum_set) simp
    also have "set (map fst D) = set vs - fst ` set T"
      using dist labels by auto
    finally show ?thesis .
  qed
  have c7: "sum_list (map snd out) = length vs"
    using sum_take_drop [of 10 rows] sum_value_counts [of col]
    by (simp add: out T_def D_def rows_def vs_def)
  have c8: "sum_list (map snd out) = length col" if "\<forall>c\<in>set col. \<not> isna c"
    using c7 dropna_all_present [OF that] by (simp add: vs_def)
  show ?thesis
    unfolding Let_def
    using c1 c2 c3 c4 c5 c6 c7 c8
    unfolding vs_def rows_def T_def D_def out_def
    by blast
qed

theorem top_n_overflow_more_than_10_witness:
  "top_n_overflow 10
     (value_counts (map Val [''a'', ''b'', ''c'', ''d'', ''e'', ''f'', ''g'', ''h'', ''i'', ''j'',
                             ''k'', ''l'', ''k'', ''b'', ''b''])) =
     [(''b'', 3), (''k'', 2), (''a'', 1), (''c'', 1), (''d'', 1), (''e'', 1), (''f'', 1),
      (''g'', 1), (''h'', 1), (''i'', 1), (''other'', 2)]
   \<and> length (top_n_overflow 10
        (value_counts (map Val [''a'', ''b'', ''c'', ''d'', ''e'', ''f'', ''g'', ''h'', ''i'', ''j'',
                                ''k'', ''l'', ''k'', ''b'', ''b'']))) = 11
   \<and> sum_list (map snd (top_n_overflow 10
        (value_counts (map Val [''a'', ''b'', ''c'', ''d'', ''e'', ''f'', ''g'', ''h'', ''i'', ''j'',
                                ''k'', ''l'', ''k'', ''b'', ''b''])))) = 15"
proof -
  let ?col = "map Val [''a'', ''b'', ''c'', ''d'', ''e'', ''f'', ''g'', ''h'', ''i'', ''j'',
                       ''k'', ''l'', ''k'', ''b'', ''b''] :: string field list"
  have h: "10 < card (set (dropna ?col))"
    by code_simp
  have p: "\<forall>c\<in>set ?col. \<not> isna c"
    by simp
  have e: "top_n_overflow 10 (value_counts ?col) =
     [(''b'', 3), (''k'', 2), (''a'', 1), (''c'', 1), (''d'', 1), (''e'', 1), (''f'', 1),
      (''g'', 1), (''h'', 1), (''i'', 1), (''other'', 2)]"
    by code_simp
  have "length (top_n_overflow 10 (value_counts ?col)) = 11
      \<and> sum_list (map snd (top_n_overflow 10 (value_counts ?col))) = length ?col"
    using top_n_overflow_more_than_10 [OF h] p unfolding Let_def by blast
  then show ?thesis using e by simp
qed

lemma filter_label:
  "distinct (map fst rows) \<Longrightarrow> r \<in> set rows \<Longrightarrow> filter (\<lambda>q. fst q = fst r) rows = [r]"
proof (induction rows)
  case Nil
  then show ?case by simp
next
  case (Cons a rows)
  show ?case
  proof (cases "r = a")
    case True
    have "fst a \<notin> fst ` set rows"
      using Cons.prems(1) by simp
    then have "\<forall>q\<in>set rows. fst q \<noteq> fst a"
      by (metis imageI)
    then have "filter (\<lambda>q. fst q = fst a) rows = []"
      by (simp add: filter_empty_conv)
    then show ?thesis using True by simp
  next
    case False
    then have r: "r \<in> set rows" using Cons.prems(2) by simp
    then have "fst a \<noteq> fst r" using Cons.prems(1) by force
    then show ?thesis using Cons.IH r Cons.prems(1) by simp
  qed
qed

lemma weighted_value_counts_id:
  assumes "distinct (map fst rows)" "sorted (map (\<lambda>r. - int (snd r)) rows)"
  shows "weighted_value_counts rows = rows"
proof -
  have "map (\<lambda>v. (v, sum_list (map snd (filter (\<lambda>r. fst r = v) rows)))) (first_seen (map fst rows))
      = map (\<lambda>r. (fst r, sum_list (map snd (filter (\<lambda>q. fst q = fst r) rows)))) rows"
    using assms(1) by (simp add: first_seen_distinct comp_def)
  also have "\<dots> = rows"
    by (rule map_idI) (simp add: filter_label [OF assms(1)])
  finally show ?thesis
    using assms(2) by (simp add: weighted_value_counts_def sort_key_id_if_sorted)
qed

text \<open>
  Claim C3. Take any column of categorical cells with at most 10 distinct values. The
  breakdown is the value counts themselves: one row per distinct value with the number of
  its occurrences, and no row is added, so a row labelled \<^verbatim>\<open>other\<close> is there only when
  \<^verbatim>\<open>other\<close> is one of the values. The breakdown is idempotent: the overflow rule
  leaves its output unchanged, and so does the second run of the whole breakdown on the
  output, each row taken as one occurrence that carries its count.
\<close>

theorem top_n_overflow_at_most_10:
  fixes col :: "string field list"
  assumes "card (set (dropna col)) \<le> 10"
  shows "(let vs = dropna col; rows = value_counts col; out = top_n_overflow 10 rows in
       out = rows
     \<and> length out = card (set vs)
     \<and> distinct (map fst out)
     \<and> set out = (\<lambda>v. (v, count_list vs v)) ` set vs
     \<and> (''other'' \<in> fst ` set out \<longleftrightarrow> ''other'' \<in> set vs)
     \<and> top_n_overflow 10 out = out
     \<and> breakdown_again 10 out = out)"
proof -
  define rows where "rows = value_counts col"
  have len: "length rows \<le> 10"
    using assms by (simp add: rows_def length_value_counts)
  have out: "top_n_overflow 10 rows = rows"
    using len by (rule top_n_overflow_short)
  have again: "breakdown_again 10 rows = rows"
    using distinct_labels_value_counts [of col] sorted_value_counts [of col]
    by (simp add: breakdown_again_def rows_def [symmetric] weighted_value_counts_id out)
  show ?thesis
    unfolding Let_def rows_def [symmetric] out
    using again len distinct_labels_value_counts [of col] labels_value_counts [of col]
    by (simp add: rows_def length_value_counts set_value_counts)
qed

theorem top_n_overflow_at_most_10_witness:
  "top_n_overflow 10 (value_counts [Val ''ann'', PyNone, Val ''bob'', Val ''bob'', Missing]) =
     [(''bob'', 2), (''ann'', 1)]
   \<and> breakdown_again 10 [(''bob'', 2), (''ann'', 1)] = [(''bob'', 2), (''ann'', 1)]"
proof -
  let ?col = "[Val ''ann'', PyNone, Val ''bob'', Val ''bob'', Missing] :: string field list"
  have h: "card (set (dropna ?col)) \<le> 10"
    by code_simp
  have e: "value_counts ?col = [(''bob'', 2), (''ann'', 1)]"
    by code_simp
  from top_n_overflow_at_most_10 [OF h]
  have "top_n_overflow 10 (value_counts ?col) = value_counts ?col
      \<and> breakdown_again 10 (top_n_overflow 10 (value_counts ?col)) =
        top_n_overflow 10 (value_counts ?col)"
    unfolding Let_def by blast
  then show ?thesis by (simp add: e top_n_overflow_def)
qed

section \<open>Failures of the API client\<close>

subsection \<open>A collection fetch that is not answered with 200\<close>

text \<open>
  Claim C8, as the code has it. For every status other than 200 (other 2xx codes too),
  the collection fetch sends exactly one request, so there is no retry, and returns
  \<^verbatim>\<open>None\<close>: one value for all these statuses, which does not carry the status (the
  status is only printed). \<^verbatim>\<open>None\<close> differs from the empty collection, which is the
  empty data frame, and from a schema mismatch, which is a raised validation error.
\<close>

theorem fetch_table_non_200:
  assumes "srv \<lparr>url = base_url api @ ''/'' @ endpoint, query = []\<rparr> = Response status_code body"
    and "status_code \<noteq> 200"
  shows "fetch_table srv api endpoint model_cls params sent =
           (Inr None, sent @ [\<lparr>url = base_url api @ ''/'' @ endpoint, query = []\<rparr>])
    \<and> fst (fetch_table srv api endpoint model_cls params sent) \<noteq> Inr (Some [])
    \<and> fst (fetch_table srv api endpoint model_cls params sent) \<noteq> Inl ValidationError"
  using assms by (simp add: fetch_table_def requests_get_def)

theorem fetch_table_non_200_witness:
  "fetch_table (\<lambda>r. Response 204 None) \<lparr>base_url = ''http://h''\<rparr> ''jobs'' Process_model None [] =
     (Inr None, [\<lparr>url = ''http://h/jobs'', query = []\<rparr>])"
  using fetch_table_non_200 [of "\<lambda>r. Response 204 None" "\<lparr>base_url = ''http://h''\<rparr>" "''jobs''"
      204 None Process_model None "[]"]
  by simp

text \<open>
  Against claim C8 as stated: the statuses 404 and 500 give the same returned value,
  \<^verbatim>\<open>None\<close>, so what the caller receives is no failure tagged with the observed status.
\<close>

theorem fetch_table_status_not_returned:
  "fst (fetch_table (\<lambda>r. Response 404 None) \<lparr>base_url = ''http://h''\<rparr> ''jobs''
          Process_model None []) = Inr None
   \<and> fst (fetch_table (\<lambda>r. Response 500 None) \<lparr>base_url = ''http://h''\<rparr> ''jobs''
          Process_model None []) = Inr None"
  by (simp add: fetch_table_def requests_get_def)

subsection \<open>The processes listing\<close>

lemma Process_model_id:
  "Process_model p = Some r \<Longrightarrow> map_of p ''id'' = Some (JStr (id' r))"
  by (auto simp: Process_model_def get_str_def split: option.splits json.splits)

lemma find_app:
  "find P (xs @ ys) = (case find P xs of None \<Rightarrow> find P ys | Some x \<Rightarrow> Some x)"
  by (induction xs) auto

lemma find_SomeD: "find P xs = Some x \<Longrightarrow> x \<in> set xs \<and> P x"
  by (induction xs) (auto split: if_splits)

lemma processes_by_id_valid:
  assumes "\<forall>p\<in>set ps. map_of p ''id'' \<noteq> None \<longrightarrow> Process_model p \<noteq> None"
  shows "processes_by_id (map JObj ps) d =
     Inr (\<lambda>i. case find (\<lambda>p. map_of p ''id'' = Some (JStr i)) (rev ps) of
                 Some p \<Rightarrow> Process_model p
               | None \<Rightarrow> d i)"
  using assms
proof (induction ps arbitrary: d)
  case Nil
  then show ?case by simp
next
  case (Cons p ps)
  let ?res = "\<lambda>qs d i. case find (\<lambda>p. map_of p ''id'' = Some (JStr i)) (rev qs) of
                 Some p \<Rightarrow> Process_model p
               | None \<Rightarrow> d i"
  have rest: "\<forall>q\<in>set ps. map_of q ''id'' \<noteq> None \<longrightarrow> Process_model q \<noteq> None"
    using Cons.prems by simp
  show ?case
  proof (cases "map_of p ''id''")
    case None
    have "processes_by_id (map JObj (p # ps)) d = processes_by_id (map JObj ps) d"
      using None by simp
    also have "\<dots> = Inr (?res ps d)"
      by (rule Cons.IH [OF rest])
    also have "?res ps d = ?res (p # ps) d"
    proof (rule ext)
      fix i
      show "?res ps d i = ?res (p # ps) d i"
        using None by (cases "find (\<lambda>p. map_of p ''id'' = Some (JStr i)) (rev ps)")
          (simp_all add: find_app)
    qed
    finally show ?thesis .
  next
    case (Some v)
    then obtain r where r: "Process_model p = Some r"
      using Cons.prems by auto
    have idr: "map_of p ''id'' = Some (JStr (id' r))"
      using r by (rule Process_model_id)
    have "processes_by_id (map JObj (p # ps)) d =
            processes_by_id (map JObj ps) (d(id' r \<mapsto> r))"
      using r idr by simp
    also have "\<dots> = Inr (?res ps (d(id' r \<mapsto> r)))"
      by (rule Cons.IH [OF rest])
    also have "?res ps (d(id' r \<mapsto> r)) = ?res (p # ps) d"
    proof (rule ext)
      fix i
      show "?res ps (d(id' r \<mapsto> r)) i = ?res (p # ps) d i"
        using r idr by (cases "find (\<lambda>p. map_of p ''id'' = Some (JStr i)) (rev ps)")
          (auto simp: find_app)
    qed
    finally show ?thesis .
  qed
qed

text \<open>
  Claim C10, as the code has it. \<open>fetch_processes_dict\<close> never returns \<^verbatim>\<open>None\<close>: it
  returns a dict or raises. On any status other than 200 it returns the empty dict, and
  the process maps built from it are then the empty maps. On a 200 answer that is an
  object whose \<^verbatim>\<open>processes\<close> array holds objects, each of which either lacks the key
  \<^verbatim>\<open>id\<close> or conforms to the Process schema, it returns a dict whose keys are exactly
  the identifiers of the entries that have the key \<^verbatim>\<open>id\<close>; each identifier is mapped to
  the record of the last entry that carries it, and the entries without \<^verbatim>\<open>id\<close> are
  dropped.
\<close>

theorem fetch_processes_dict_results:
  "(srv \<lparr>url = base_url api @ ''/'' @ endpoint, query = []\<rparr> = Response status_code body
      \<and> status_code \<noteq> 200 \<longrightarrow>
      fetch_processes_dict srv api endpoint sent =
        (Inr Map.empty, sent @ [\<lparr>url = base_url api @ ''/'' @ endpoint, query = []\<rparr>]))
   \<and> (srv \<lparr>url = base_url api @ ''/processes'', query = []\<rparr> = Response status_code body
      \<and> status_code \<noteq> 200 \<longrightarrow>
      get_process_maps srv api sent =
        (Inr (Map.empty, Map.empty), sent @ [\<lparr>url = base_url api @ ''/processes'', query = []\<rparr>]))
   \<and> (srv \<lparr>url = base_url api @ ''/'' @ endpoint, query = []\<rparr> = Response 200 (Some (JObj kv))
      \<and> map_of kv ''processes'' = Some (JArr (map JObj ps))
      \<and> (\<forall>p\<in>set ps. map_of p ''id'' \<noteq> None \<longrightarrow> Process_model p \<noteq> None) \<longrightarrow>
      (\<exists>d. fetch_processes_dict srv api endpoint sent =
             (Inr d, sent @ [\<lparr>url = base_url api @ ''/'' @ endpoint, query = []\<rparr>])
         \<and> dom d = {i. \<exists>p\<in>set ps. map_of p ''id'' = Some (JStr i)}
         \<and> (\<forall>i. d i = (case find (\<lambda>p. map_of p ''id'' = Some (JStr i)) (rev ps) of
                          Some p \<Rightarrow> Process_model p
                        | None \<Rightarrow> None))))"
proof -
  have a: "fetch_processes_dict srv api endpoint sent =
        (Inr Map.empty, sent @ [\<lparr>url = base_url api @ ''/'' @ endpoint, query = []\<rparr>])"
    if "srv \<lparr>url = base_url api @ ''/'' @ endpoint, query = []\<rparr> = Response status_code body"
      and "status_code \<noteq> 200"
    using that by (simp add: fetch_processes_dict_def requests_get_def)
  have b: "get_process_maps srv api sent =
        (Inr (Map.empty, Map.empty), sent @ [\<lparr>url = base_url api @ ''/processes'', query = []\<rparr>])"
    if "srv \<lparr>url = base_url api @ ''/processes'', query = []\<rparr> = Response status_code body"
      and "status_code \<noteq> 200"
    using that by (simp add: get_process_maps_def fetch_processes_dict_def requests_get_def)
  have c: "\<exists>d. fetch_processes_dict srv api endpoint sent =
             (Inr d, sent @ [\<lparr>url = base_url api @ ''/'' @ endpoint, query = []\<rparr>])
         \<and> dom d = {i. \<exists>p\<in>set ps. map_of p ''id'' = Some (JStr i)}
         \<and> (\<forall>i. d i = (case find (\<lambda>p. map_of p ''id'' = Some (JStr i)) (rev ps) of
                          Some p \<Rightarrow> Process_model p
                        | None \<Rightarrow> None))"
    if srv: "srv \<lparr>url = base_url api @ ''/'' @ endpoint, query = []\<rparr> = Response 200 (Some (JObj kv))"
      and kv: "map_of kv ''processes'' = Some (JArr (map JObj ps))"
      and ok: "\<forall>p\<in>set ps. map_of p ''id'' \<noteq> None \<longrightarrow> Process_model p \<noteq> None"
  proof -
    let ?d = "\<lambda>i. case find (\<lambda>p. map_of p ''id'' = Some (JStr i)) (rev ps) of
                 Some p \<Rightarrow> Process_model p
               | None \<Rightarrow> None"
    have run: "processes_by_id (map JObj ps) Map.empty = Inr ?d"
      using processes_by_id_valid [OF ok, of Map.empty] by simp
    have res: "fetch_processes_dict srv api endpoint sent =
             (Inr ?d, sent @ [\<lparr>url = base_url api @ ''/'' @ endpoint, query = []\<rparr>])"
      using srv kv run
      by (simp add: fetch_processes_dict_def requests_get_def get_processes_def)
    have dom: "dom ?d = {i. \<exists>p\<in>set ps. map_of p ''id'' = Some (JStr i)}"
    proof (rule set_eqI)
      fix i
      show "i \<in> dom ?d \<longleftrightarrow> i \<in> {i. \<exists>p\<in>set ps. map_of p ''id'' = Some (JStr i)}"
      proof (cases "find (\<lambda>p. map_of p ''id'' = Some (JStr i)) (rev ps)")
        case None
        then have "\<not> (\<exists>p\<in>set ps. map_of p ''id'' = Some (JStr i))"
          by (auto simp: find_None_iff)
        then show ?thesis using None by (simp add: dom_def)
      next
        case (Some p)
        then have p: "p \<in> set ps" "map_of p ''id'' = Some (JStr i)"
          by (auto dest: find_SomeD)
        then have "Process_model p \<noteq> None" using ok by auto
        then show ?thesis using Some p by (auto simp: dom_def)
      qed
    qed
    show ?thesis using res dom by blast
  qed
  show ?thesis using a b c by blast
qed

theorem fetch_processes_dict_results_witness:
  "fst (fetch_processes_dict (\<lambda>r. Response 503 None) \<lparr>base_url = ''http://h''\<rparr> ''processes'' [])
     = Inr Map.empty
   \<and> fst (get_process_maps (\<lambda>r. Response 503 None) \<lparr>base_url = ''http://h''\<rparr> [])
     = Inr (Map.empty, Map.empty)
   \<and> map_sum id (\<lambda>d. (d ''p1'', d ''p2''))
       (fst (fetch_processes_dict
          (\<lambda>r. Response 200 (Some (JObj [(''processes'', JArr (map JObj
             [ [(''version'', JStr ''1''), (''id'', JStr ''p1''), (''title'', JStr ''old''),
               (''description'', JStr ''d''), (''jobControlOptions'', JArr [JStr ''async'']),
               (''outputTransmission'', JNull)],
              [(''title'', JStr ''no id'')],
              [(''version'', JStr ''2''), (''id'', JStr ''p1''), (''title'', JStr ''new''),
               (''description'', JStr ''d''), (''jobControlOptions'', JArr []),
               (''outputTransmission'', JNull)] ]))])))
          \<lparr>base_url = ''http://h''\<rparr> ''processes'' []))
     = Inr (Some \<lparr>version = ''2'', id' = ''p1'', title = ''new'', description = ''d'',
                  jobControlOptions = [], outputTransmission = JNull\<rparr>, None)"
proof -
  let ?api = "\<lparr>base_url = ''http://h''\<rparr>"
  let ?ps = "[ [(''version'', JStr ''1''), (''id'', JStr ''p1''), (''title'', JStr ''old''),
               (''description'', JStr ''d''), (''jobControlOptions'', JArr [JStr ''async'']),
               (''outputTransmission'', JNull)],
              [(''title'', JStr ''no id'')],
              [(''version'', JStr ''2''), (''id'', JStr ''p1''), (''title'', JStr ''new''),
               (''description'', JStr ''d''), (''jobControlOptions'', JArr []),
               (''outputTransmission'', JNull)] ]"
  let ?kv = "[(''processes'', JArr (map JObj ?ps))]"
  let ?srv = "\<lambda>r::request. Response 200 (Some (JObj ?kv))"
  have down: "fst (fetch_processes_dict (\<lambda>r. Response 503 None) ?api ''processes'' []) = Inr Map.empty
     \<and> fst (get_process_maps (\<lambda>r. Response 503 None) ?api []) = Inr (Map.empty, Map.empty)"
    using fetch_processes_dict_results [of "\<lambda>r. Response 503 None" ?api "''processes''" 503 None
        "[]" "[]" "[]"]
    by simp
  have valid: "\<forall>p\<in>set ?ps. map_of p ''id'' \<noteq> None \<longrightarrow> Process_model p \<noteq> None"
    by (simp add: Process_model_def get_str_def get_str_list_def)
  from fetch_processes_dict_results [of ?srv ?api "''processes''" 200 "Some (JObj ?kv)" "[]" ?kv ?ps]
    valid
  obtain d where d: "fetch_processes_dict ?srv ?api ''processes'' [] =
        (Inr d, [\<lparr>url = ''http://h/processes'', query = []\<rparr>])"
      "\<forall>i. d i = (case find (\<lambda>p. map_of p ''id'' = Some (JStr i)) (rev ?ps) of
                          Some p \<Rightarrow> Process_model p
                        | None \<Rightarrow> None)"
    by auto
  have "d ''p1'' = Some \<lparr>version = ''2'', id' = ''p1'', title = ''new'', description = ''d'',
                  jobControlOptions = [], outputTransmission = JNull\<rparr>"
    "d ''p2'' = None"
    by (simp_all add: d(2) Process_model_def get_str_def get_str_list_def)
  then show ?thesis using down d(1) by simp
qed

text \<open>
  Against claim C10 as stated: a 200 answer with an entry that has the key \<^verbatim>\<open>id\<close> and
  fails the schema gives no dict, the validation error is raised; and an exception of the
  transport is raised as well, so the function is not total over the outcomes of the
  request.
\<close>

theorem fetch_processes_dict_raises:
  "fst (fetch_processes_dict
          (\<lambda>r. Response 200 (Some (JObj [(''processes'', JArr [JObj [(''id'', JStr ''p1'')]])])))
          \<lparr>base_url = ''http://h''\<rparr> ''processes'' []) = Inl ValidationError
   \<and> fst (fetch_processes_dict (\<lambda>r. Failed ''connection refused'')
          \<lparr>base_url = ''http://h''\<rparr> ''processes'' []) = Inl (RequestException ''connection refused'')"
  by (simp add: fetch_processes_dict_def requests_get_def get_processes_def Process_model_def
      get_str_def)

section \<open>Properties of the metadata detail\<close>

lemma metadata_loop_last_url:
  "snd (metadata_loop srv [u] st sent) = sent @ [\<lparr>url = u, query = []\<rparr>]"
  by (simp add: requests_get_def Let_def split: http_outcome.splits option.splits json.splits)

lemma metadata_loop_failed:
  "srv \<lparr>url = u, query = []\<rparr> = Failed e \<Longrightarrow>
   metadata_loop srv (u # us) st sent =
     metadata_loop srv us (st\<lparr>last_error := Some e\<rparr>) (sent @ [\<lparr>url = u, query = []\<rparr>])"
  by (simp add: requests_get_def)

lemma metadata_loop_status:
  "srv \<lparr>url = u, query = []\<rparr> = Response c b \<Longrightarrow> c \<noteq> 200 \<Longrightarrow>
   metadata_loop srv (u # us) st sent =
     metadata_loop srv us (st\<lparr>last_status := Some c\<rparr>) (sent @ [\<lparr>url = u, query = []\<rparr>])"
  by (simp add: requests_get_def)

lemma metadata_loop_ok:
  "srv \<lparr>url = u, query = []\<rparr> = Response 200 (Some (JObj kv)) \<Longrightarrow>
   metadata_loop srv (u # us) st sent =
     (Inr (st\<lparr>last_status := Some 200,
              meta_data := Some (case JobMetadataResponse_dump kv of
                                   Some dump \<Rightarrow> dump | None \<Rightarrow> JObj kv)\<rparr>),
      sent @ [\<lparr>url = u, query = []\<rparr>])"
  by (simp add: requests_get_def)

lemma metadata_loop_nil: "metadata_loop srv [] st sent = (Inr st, sent)"
  by simp

lemmas metadata_loop_steps =
  metadata_loop_failed metadata_loop_status metadata_loop_ok metadata_loop_nil

text \<open>
  Claim C5, as the code has it. Let A be the request to \<^verbatim>\<open>/jobs/{id}/metadata\<close> and B
  the request to \<^verbatim>\<open>/jobs/{id}\<close>. A 200 answer to A with a JSON object shows the
  metadata after the single request A. When A raises or is answered with a status other
  than 200, exactly one further request is sent, B, whatever B brings; a 200 answer to B
  with a JSON object then shows the metadata and nothing more is sent. When both fail, the
  banner shows the text of the last exception if that text is not empty, and otherwise the
  status of the last answer: an exception at A is shown in preference to a later status
  at B.
\<close>

theorem metadata_detail_fallback:
  "(let A = \<lparr>url = base_url api @ ''/jobs/'' @ job_id @ ''/metadata'', query = []\<rparr>;
        B = \<lparr>url = base_url api @ ''/jobs/'' @ job_id, query = []\<rparr>;
        shown = (\<lambda>kv. Json_shown (case JobMetadataResponse_dump kv of
                                     Some dump \<Rightarrow> dump | None \<Rightarrow> JObj kv))
    in (srv A = Response 200 (Some (JObj kv)) \<longrightarrow>
          metadata_detail srv api job_id sent = (Inr (shown kv), sent @ [A]))
     \<and> ((srv A = Failed e1 \<or> srv A = Response c1 b1 \<and> c1 \<noteq> 200) \<longrightarrow>
          snd (metadata_detail srv api job_id sent) = sent @ [A, B])
     \<and> ((srv A = Failed e1 \<or> srv A = Response c1 b1 \<and> c1 \<noteq> 200)
          \<and> srv B = Response 200 (Some (JObj kv)) \<longrightarrow>
          metadata_detail srv api job_id sent = (Inr (shown kv), sent @ [A, B]))
     \<and> (srv A = Response c1 b1 \<and> c1 \<noteq> 200 \<and> srv B = Response c2 b2 \<and> c2 \<noteq> 200 \<longrightarrow>
          fst (metadata_detail srv api job_id sent) = Inr (Error_last_status c2))
     \<and> (srv A = Response c1 b1 \<and> c1 \<noteq> 200 \<and> srv B = Failed e2 \<longrightarrow>
          fst (metadata_detail srv api job_id sent) =
            Inr (if e2 \<noteq> [] then Error_last_error e2 else Error_last_status c1))
     \<and> (srv A = Failed e1 \<and> srv B = Response c2 b2 \<and> c2 \<noteq> 200 \<longrightarrow>
          fst (metadata_detail srv api job_id sent) =
            Inr (if e1 \<noteq> [] then Error_last_error e1 else Error_last_status c2))
     \<and> (srv A = Failed e1 \<and> srv B = Failed e2 \<longrightarrow>
          fst (metadata_detail srv api job_id sent) =
            Inr (if e2 \<noteq> [] then Error_last_error e2 else Error_unknown)))"
  unfolding Let_def
proof (intro conjI impI)
  let ?a = "base_url api @ ''/jobs/'' @ job_id @ ''/metadata''"
  let ?b = "base_url api @ ''/jobs/'' @ job_id"
  let ?A = "\<lparr>url = ?a, query = []\<rparr>"
  let ?B = "\<lparr>url = ?b, query = []\<rparr>"
  let ?st0 = "\<lparr>meta_data = None, last_status = None, last_error = None\<rparr>"
  let ?shown = "Json_shown (case JobMetadataResponse_dump kv of
                              Some dump \<Rightarrow> dump | None \<Rightarrow> JObj kv)"
  have unfold: "metadata_detail srv api job_id sent =
     (case metadata_loop srv [?a, ?b] ?st0 sent of
        (Inl e, sent') \<Rightarrow> (Inl e, sent')
      | (Inr st, sent') \<Rightarrow> (Inr (metadata_banner st), sent'))"
    by (simp add: metadata_detail_def urls_to_try_def del: metadata_loop.simps(2))
  have snd_eq: "snd (metadata_detail srv api job_id sent) = snd (metadata_loop srv [?a, ?b] ?st0 sent)"
    unfolding unfold by (simp split: prod.splits sum.splits)
  show "metadata_detail srv api job_id sent = (Inr ?shown, sent @ [?A])"
    if "srv ?A = Response 200 (Some (JObj kv))"
    using that
    by (simp add: unfold metadata_loop_steps metadata_banner_def del: metadata_loop.simps(2))
  show "snd (metadata_detail srv api job_id sent) = sent @ [?A, ?B]"
    if "srv ?A = Failed e1 \<or> srv ?A = Response c1 b1 \<and> c1 \<noteq> 200"
    using that
    by (auto simp: snd_eq metadata_loop_failed metadata_loop_status metadata_loop_last_url
        simp del: metadata_loop.simps(2))
  show "metadata_detail srv api job_id sent = (Inr ?shown, sent @ [?A, ?B])"
    if "(srv ?A = Failed e1 \<or> srv ?A = Response c1 b1 \<and> c1 \<noteq> 200)
          \<and> srv ?B = Response 200 (Some (JObj kv))"
    using that
    by (auto simp: unfold metadata_loop_steps metadata_banner_def simp del: metadata_loop.simps(2))
  show "fst (metadata_detail srv api job_id sent) = Inr (Error_last_status c2)"
    if "srv ?A = Response c1 b1 \<and> c1 \<noteq> 200 \<and> srv ?B = Response c2 b2 \<and> c2 \<noteq> 200"
    using that
    by (simp add: unfold metadata_loop_steps metadata_banner_def del: metadata_loop.simps(2))
  show "fst (metadata_detail srv api job_id sent) =
            Inr (if e2 \<noteq> [] then Error_last_error e2 else Error_last_status c1)"
    if "srv ?A = Response c1 b1 \<and> c1 \<noteq> 200 \<and> srv ?B = Failed e2"
    using that
    by (simp add: unfold metadata_loop_steps metadata_banner_def del: metadata_loop.simps(2))
  show "fst (metadata_detail srv api job_id sent) =
            Inr (if e1 \<noteq> [] then Error_last_error e1 else Error_last_status c2)"
    if "srv ?A = Failed e1 \<and> srv ?B = Response c2 b2 \<and> c2 \<noteq> 200"
    using that
    by (simp add: unfold metadata_loop_steps metadata_banner_def del: metadata_loop.simps(2))
  show "fst (metadata_detail srv api job_id sent) =
            Inr (if e2 \<noteq> [] then Error_last_error e2 else Error_unknown)"
    if "srv ?A = Failed e1 \<and> srv ?B = Failed e2"
    using that
    by (simp add: unfold metadata_loop_steps metadata_banner_def del: metadata_loop.simps(2))
qed

theorem metadata_detail_fallback_witness:
  "metadata_detail
     (\<lambda>r. if url r = ''http://h/jobs/j1/metadata'' then Response 404 None
           else Response 200 (Some (JObj [(''jobID'', JStr ''j1'')])))
     \<lparr>base_url = ''http://h''\<rparr> ''j1'' [] =
   (Inr (Json_shown (JObj [(''jobID'', JStr ''j1'')])),
    [\<lparr>url = ''http://h/jobs/j1/metadata'', query = []\<rparr>,
     \<lparr>url = ''http://h/jobs/j1'', query = []\<rparr>])
   \<and> fst (metadata_detail
     (\<lambda>r. if url r = ''http://h/jobs/j1/metadata'' then Failed ''timed out''
           else Response 503 None)
     \<lparr>base_url = ''http://h''\<rparr> ''j1'' []) = Inr (Error_last_error ''timed out'')
   \<and> fst (metadata_detail (\<lambda>r. Response 404 None) \<lparr>base_url = ''http://h''\<rparr> ''j1'' [])
       = Inr (Error_last_status 404)"
proof -
  let ?api = "\<lparr>base_url = ''http://h''\<rparr>"
  let ?kv = "[(''jobID'', JStr ''j1'')]"
  have dump: "JobMetadataResponse_dump ?kv = None"
    by (simp add: JobMetadataResponse_dump_def get_str_def)
  have a: "metadata_detail
     (\<lambda>r. if url r = ''http://h/jobs/j1/metadata'' then Response 404 None
           else Response 200 (Some (JObj ?kv))) ?api ''j1'' [] =
   (Inr (Json_shown (JObj ?kv)),
    [\<lparr>url = ''http://h/jobs/j1/metadata'', query = []\<rparr>,
     \<lparr>url = ''http://h/jobs/j1'', query = []\<rparr>])"
    using metadata_detail_fallback [of ?api "''j1''"
        "\<lambda>r. if url r = ''http://h/jobs/j1/metadata'' then Response 404 None
           else Response 200 (Some (JObj ?kv))" ?kv "[]" "[]" 404 None 200 None "[]"]
    by (simp add: Let_def dump)
  have b: "fst (metadata_detail
     (\<lambda>r. if url r = ''http://h/jobs/j1/metadata'' then Failed ''timed out''
           else Response 503 None) ?api ''j1'' []) = Inr (Error_last_error ''timed out'')"
    using metadata_detail_fallback [of ?api "''j1''"
        "\<lambda>r. if url r = ''http://h/jobs/j1/metadata'' then Failed ''timed out''
           else Response 503 None" "[]" "[]" "''timed out''" 0 None 503 None "[]"]
    by (simp add: Let_def)
  have c: "fst (metadata_detail (\<lambda>r. Response 404 None) ?api ''j1'' []) = Inr (Error_last_status 404)"
    using metadata_detail_fallback [of ?api "''j1''" "\<lambda>r. Response 404 None" "[]" "[]" "[]"
        404 None 404 None "[]"]
    by (simp add: Let_def)
  show ?thesis using a b c by simp
qed

text \<open>
  Against claim C5 as stated: when A raises and B is then answered with 404, the last
  thing observed is the status 404, and the banner shows the exception of A; and a 200
  answer to B whose body is a JSON array is no successful result, a type error is raised.
\<close>

theorem metadata_detail_reports_earlier_error:
  "metadata_detail
     (\<lambda>r. if url r = ''http://h/jobs/j1/metadata'' then Failed ''boom'' else Response 404 None)
     \<lparr>base_url = ''http://h''\<rparr> ''j1'' [] =
   (Inr (Error_last_error ''boom''),
    [\<lparr>url = ''http://h/jobs/j1/metadata'', query = []\<rparr>,
     \<lparr>url = ''http://h/jobs/j1'', query = []\<rparr>])
   \<and> fst (metadata_detail
     (\<lambda>r. if url r = ''http://h/jobs/j1/metadata'' then Response 404 None
           else Response 200 (Some (JArr [])))
     \<lparr>base_url = ''http://h''\<rparr> ''j1'' []) = Inl TypeError"
  by (simp add: metadata_detail_def urls_to_try_def requests_get_def metadata_banner_def)

end
